theory Spec2Isabelle
  imports Complex_Main "HOL-Library.Char_ord" "HOL-Library.List_Lexorder"
begin

section \<open>Values\<close>

text \<open>
  The dashboard of \<^verbatim>\<open>Streamlite/main.py\<close> works on pandas tables whose numeric cells
  are Python floats. A float is modelled by its value: not-a-number (the value pandas
  uses for an absent number), the two infinities, or a finite number. Finite numbers
  are real numbers: the comparisons the code makes with \<open>GOOD_MAX\<close> and \<open>MEDIUM_MAX\<close>
  are exact on floats, while sums and quotients are taken without rounding and without
  overflow.
\<close>

datatype pyfloat = NaN | NInf | Fin real | PInf

text \<open>\<^verbatim>\<open>pd.isna(v)\<close> on a float.\<close>

fun isna_float :: "pyfloat \<Rightarrow> bool" where
  "isna_float NaN = True"
| "isna_float _ = False"

text \<open>\<^verbatim>\<open>v <= n\<close> for a float \<open>v\<close> and a Python int \<open>n\<close>: false on NaN.\<close>

fun float_le_int :: "pyfloat \<Rightarrow> int \<Rightarrow> bool" where
  "float_le_int NaN n = False"
| "float_le_int NInf n = True"
| "float_le_int (Fin x) n = (x \<le> of_int n)"
| "float_le_int PInf n = False"

section \<open>Strings\<close>

text \<open>
  A Python \<^verbatim>\<open>str\<close> is modelled as a \<open>string\<close> whose characters are the code points
  below 256. On these, \<^verbatim>\<open>str.strip()\<close> removes the white space of \<^verbatim>\<open>str.isspace\<close>,
  \<^verbatim>\<open>str.lower()\<close> maps A-Z and the upper-case letters U+00C0 to U+00DE (the
  multiplication sign U+00D7 apart) 32 places up, and \<^verbatim>\<open>str.upper()\<close> maps a-z and the
  lower-case letters U+00E0 to U+00FE (the division sign U+00F7 apart) 32 places down
  and the sharp s to SS. The upper-case forms of U+00B5 and U+00FF lie above 255:
  the model leaves these two characters as they are.
\<close>

definition py_isspace :: "char \<Rightarrow> bool" where
  "py_isspace c = (of_char c \<in> {9, 10, 11, 12, 13, 28, 29, 30, 31, 32, 133, 160 :: nat})"

definition strip :: "string \<Rightarrow> string" where
  "strip s = rev (dropWhile py_isspace (rev (dropWhile py_isspace s)))"


definition upper_char :: "char \<Rightarrow> string" where
  "upper_char c =
     (let n = of_char c :: nat in
      if (97 \<le> n \<and> n \<le> 122) \<or> (224 \<le> n \<and> n \<le> 254 \<and> n \<noteq> 247)
      then [char_of (n - 32)]
      else if n = 223 then ''SS'' else [c])"


definition upper :: "string \<Rightarrow> string" where
  "upper s = concat (map upper_char s)"




section \<open>Cells, labels and tables\<close>

text \<open>
  A cell of a table is a string, a number, a calendar date, \<^verbatim>\<open>NaT\<close> or \<^verbatim>\<open>None\<close>. Python
  ints and floats that are equal as numbers are equal as cells; the empty cell of a
  spreadsheet is the number NaN. A timestamp is modelled by its calendar date, the
  part that \<^verbatim>\<open>.dt.date\<close> keeps.
\<close>

datatype date = Date (year: nat) (month: nat) (day: nat)

datatype cell = CStr string | CNum pyfloat | CDate date | CNaT | CNone

text \<open>\<^verbatim>\<open>pd.isna\<close> on a cell, as \<^verbatim>\<open>dropna\<close> and \<^verbatim>\<open>groupby\<close> apply it.\<close>

fun isna :: "cell \<Rightarrow> bool" where
  "isna (CNum v) = isna_float v"
| "isna CNaT = True"
| "isna CNone = True"
| "isna _ = False"

text \<open>
  A column label is a \<^verbatim>\<open>str\<close>, or another object (a number or a timestamp in the
  header row), which is carried by the text \<^verbatim>\<open>str()\<close> gives for it.
\<close>

datatype label = LStr string | LObj string


text \<open>
  A \<^verbatim>\<open>DataFrame\<close>: the column labels and the rows, each row holding one cell per
  column, in the order of the labels (\<open>wf_table\<close>). The row index of pandas is left
  out: no function of the program reads it.
\<close>

record table =
  columns :: "label list"
  rows :: "cell list list"

definition wf_table :: "table \<Rightarrow> bool" where
  "wf_table t = list_all (\<lambda>r. length r = length (columns t)) (rows t)"

text \<open>
  The exceptions that leave the functions below. \<open>Unmodelled\<close> is no exception: it is
  the answer of the model of \<^verbatim>\<open>read_csv\<close> further down on a document it does not cover.
\<close>

datatype error =
    SchemaError "string list" "label list"
  | ParserError
  | KeyError string
  | TypeError
  | Unmodelled

section \<open>The pandas calls\<close>

text \<open>
  The program calls into pandas. These calls are parameters of the model:
  \<^item> \<open>read_csv\<close>: \<^verbatim>\<open>pd.read_csv(io.StringIO(text))\<close>;
  \<^item> \<open>to_datetime\<close>: \<^verbatim>\<open>pd.to_datetime(col, errors="coerce")\<close>, given as the result for
    one cell of the column \<open>col\<close> (\<open>None\<close> is \<^verbatim>\<open>NaT\<close>);
  \<^item> \<open>to_numeric\<close>: \<^verbatim>\<open>pd.to_numeric(col, errors="coerce")\<close>, in the same way;
  \<^item> \<open>repr\<close>: the text \<^verbatim>\<open>str()\<close> gives for a finite number or a date.
\<close>

record lib =
  read_csv :: "string \<Rightarrow> error + table"
  to_datetime :: "cell list \<Rightarrow> cell \<Rightarrow> date option"
  to_numeric :: "cell list \<Rightarrow> cell \<Rightarrow> pyfloat"
  repr :: "cell \<Rightarrow> string"


section \<open>Configuration constants\<close>

definition GOOD_MAX :: int where
  "GOOD_MAX = 40"

definition MEDIUM_MAX :: int where
  "MEDIUM_MAX = 80"

definition COLOR_GOOD :: string where
  "COLOR_GOOD = ''#0078FF''"

definition COLOR_MED :: string where
  "COLOR_MED = ''#FFA500''"

definition COLOR_BAD :: string where
  "COLOR_BAD = ''#DC143C''"

definition COLOR_UNKNOWN :: string where
  "COLOR_UNKNOWN = ''#A0A0A0''"

section \<open>Classification\<close>

text \<open>
  \<^verbatim>\<open>eaqi_label\<close> and \<^verbatim>\<open>eaqi_color\<close>: the same chain of tests, one returning the French
  tier name (Bon, Moyen, Mauvais, Inconnu for Good, Medium, Bad, Unknown), the other
  the colour of the legend.
\<close>

definition eaqi_label :: "pyfloat \<Rightarrow> string" where
  "eaqi_label v =
     (if isna_float v then ''Inconnu''
      else if float_le_int v GOOD_MAX then ''Bon''
      else if float_le_int v MEDIUM_MAX then ''Moyen''
      else ''Mauvais'')"

definition eaqi_color :: "pyfloat \<Rightarrow> string" where
  "eaqi_color v =
     (if isna_float v then COLOR_UNKNOWN
      else if float_le_int v GOOD_MAX then COLOR_GOOD
      else if float_le_int v MEDIUM_MAX then COLOR_MED
      else COLOR_BAD)"

text \<open>The colour that goes with each tier name, read off the constants above.\<close>

definition color_of_label :: "string \<Rightarrow> string" where
  "color_of_label l =
     (if l = ''Bon'' then COLOR_GOOD
      else if l = ''Moyen'' then COLOR_MED
      else if l = ''Mauvais'' then COLOR_BAD
      else COLOR_UNKNOWN)"

section \<open>Country names\<close>

definition ISO2_TO_COUNTRY_FR :: "(string \<times> string) list" where
  "ISO2_TO_COUNTRY_FR =
    [(''AL'', ''Albanie''),
     (''AT'', ''Autriche''),
     (''BA'', ''Bosnie-Herz'' @ [CHR 0xE9] @ ''govine''),
     (''BE'', ''Belgique''),
     (''BG'', ''Bulgarie''),
     (''CH'', ''Suisse''),
     (''CZ'', ''Tch'' @ [CHR 0xE9] @ ''quie''),
     (''DE'', ''Allemagne''),
     (''DK'', ''Danemark''),
     (''EE'', ''Estonie''),
     (''ES'', ''Espagne''),
     (''FI'', ''Finlande''),
     (''FR'', ''France''),
     (''GB'', ''Royaume-Uni''),
     (''GR'', ''Gr'' @ [CHR 0xE8] @ ''ce''),
     (''HR'', ''Croatie''),
     (''HU'', ''Hongrie''),
     (''IE'', ''Irlande''),
     (''IS'', ''Islande''),
     (''IT'', ''Italie''),
     (''LT'', ''Lituanie''),
     (''LU'', ''Luxembourg''),
     (''LV'', ''Lettonie''),
     (''MD'', ''Moldavie''),
     (''ME'', ''Mont'' @ [CHR 0xE9] @ ''n'' @ [CHR 0xE9] @ ''gro''),
     (''MK'', ''Mac'' @ [CHR 0xE9] @ ''doine du Nord''),
     (''MT'', ''Malte''),
     (''NL'', ''Pays-Bas''),
     (''NO'', ''Norv'' @ [CHR 0xE8] @ ''ge''),
     (''PL'', ''Pologne''),
     (''PT'', ''Portugal''),
     (''RO'', ''Roumanie''),
     (''RS'', ''Serbie''),
     (''SE'', ''Su'' @ [CHR 0xE8] @ ''de''),
     (''SI'', ''Slov'' @ [CHR 0xE9] @ ''nie''),
     (''SK'', ''Slovaquie''),
     (''UA'', ''Ukraine'')]"

text \<open>
  \<^verbatim>\<open>country_name\<close>, applied to a cell of the country column: the sentinel for a cell
  that is not a \<^verbatim>\<open>str\<close>, otherwise \<^verbatim>\<open>ISO2_TO_COUNTRY_FR.get(c, c)\<close> on the stripped,
  upper-cased code.
\<close>

definition country_name :: "cell \<Rightarrow> string" where
  "country_name code =
     (case code of
        CStr s \<Rightarrow>
          (let c = upper (strip s) in
           case map_of ISO2_TO_COUNTRY_FR c of Some n \<Rightarrow> n | None \<Rightarrow> c)
      | _ \<Rightarrow> ''Inconnu'')"

section \<open>Loading and normalising\<close>

text \<open>
  The functions of this section and the next give the table a call returns. Which
  table object holds it (the one the call received, changed in place, or a new one) is
  the subject of the section on objects.
\<close>







section \<open>Cleaning\<close>

text \<open>
  Columns are selected by label. The position of a label is that of its first
  occurrence; pandas selects one column by a label only when the label occurs once,
  which the properties below assume of the labels (\<open>distinct\<close>).
\<close>

definition col_index :: "table \<Rightarrow> string \<Rightarrow> nat" where
  "col_index df l = length (takeWhile (\<lambda>c. c \<noteq> LStr l) (columns df))"

text \<open>\<^verbatim>\<open>df[l]\<close>, read: the cells of column \<open>l\<close>.\<close>

definition getitem :: "table \<Rightarrow> string \<Rightarrow> cell list" where
  "getitem df l = map (\<lambda>r. r ! col_index df l) (rows df)"

text \<open>
  \<^verbatim>\<open>df[l] = vs\<close>: the cells of column \<open>l\<close> are replaced where the column exists, and a
  new last column is added where it does not.
\<close>

definition setitem :: "table \<Rightarrow> string \<Rightarrow> cell list \<Rightarrow> table" where
  "setitem df l vs =
     (if LStr l \<in> set (columns df)
      then df\<lparr>rows := map2 (\<lambda>r v. r[col_index df l := v]) (rows df) vs\<rparr>
      else \<lparr>columns = columns df @ [LStr l], rows = map2 (\<lambda>r v. r @ [v]) (rows df) vs\<rparr>)"

text \<open>\<^verbatim>\<open>pd.to_datetime(col, errors="coerce").dt.date\<close>.\<close>

fun dt_date :: "date option \<Rightarrow> cell" where
  "dt_date None = CNaT"
| "dt_date (Some d) = CDate d"

definition parse_dates :: "lib \<Rightarrow> cell list \<Rightarrow> cell list" where
  "parse_dates L col = map (\<lambda>c. dt_date (to_datetime L col c)) col"

text \<open>\<^verbatim>\<open>pd.to_numeric(col, errors="coerce")\<close>.\<close>

definition parse_numbers :: "lib \<Rightarrow> cell list \<Rightarrow> cell list" where
  "parse_numbers L col = map (\<lambda>c. CNum (to_numeric L col c)) col"

text \<open>The five assignments of \<^verbatim>\<open>prepare\<close>, in the order of the source.\<close>

definition coerce_columns :: "lib \<Rightarrow> table \<Rightarrow> table" where
  "coerce_columns L df0 =
     (let df1 = setitem df0 ''date'' (parse_dates L (getitem df0 ''date''));
          df2 = setitem df1 ''latitude'' (parse_numbers L (getitem df1 ''latitude''));
          df3 = setitem df2 ''longitude'' (parse_numbers L (getitem df2 ''longitude''));
          df4 = setitem df3 ''european_aqi'' (parse_numbers L (getitem df3 ''european_aqi''))
      in setitem df4 ''country_name''
           (map (\<lambda>c. CStr (country_name c)) (getitem df4 ''country'')))"

text \<open>\<^verbatim>\<open>df.dropna(subset=...)\<close>: the rows with no absent cell in the columns \<open>ls\<close>.\<close>

definition dropna :: "table \<Rightarrow> string list \<Rightarrow> table" where
  "dropna df ls =
     df\<lparr>rows := filter (\<lambda>r. list_all (\<lambda>l. \<not> isna (r ! col_index df l)) ls) (rows df)\<rparr>"

definition needed :: "string list" where
  "needed = [''city'', ''country'', ''date'', ''latitude'', ''longitude'', ''european_aqi'']"

text \<open>
  \<^verbatim>\<open>prepare\<close>. The \<^verbatim>\<open>ValueError\<close> of the source is the schema error: it carries
  \<^verbatim>\<open>sorted(missing)\<close> and \<^verbatim>\<open>list(df.columns)\<close>. Past the test the six labels are
  columns of the table, so no selection below fails.
\<close>

definition prepare :: "lib \<Rightarrow> table \<Rightarrow> error + table" where
  "prepare L df =
     (let missing = filter (\<lambda>n. LStr n \<notin> set (columns df)) needed in
      if missing \<noteq> [] then Inl (SchemaError (sort missing) (columns df))
      else Inr (dropna (coerce_columns L df)
                  [''date'', ''latitude'', ''longitude'', ''european_aqi'', ''city'', ''country'']))"

section \<open>Aggregation\<close>

text \<open>
  Float addition and division by a count, as IEEE 754 has them on the infinities and
  NaN; on finite numbers they are the exact sum and quotient.
\<close>

fun float_add :: "pyfloat \<Rightarrow> pyfloat \<Rightarrow> pyfloat" where
  "float_add NaN _ = NaN"
| "float_add _ NaN = NaN"
| "float_add PInf NInf = NaN"
| "float_add NInf PInf = NaN"
| "float_add PInf _ = PInf"
| "float_add _ PInf = PInf"
| "float_add NInf _ = NInf"
| "float_add _ NInf = NInf"
| "float_add (Fin x) (Fin y) = Fin (x + y)"

fun float_div_count :: "pyfloat \<Rightarrow> nat \<Rightarrow> pyfloat" where
  "float_div_count (Fin x) n = Fin (x / real n)"
| "float_div_count v n = v"

definition float_sum :: "pyfloat list \<Rightarrow> pyfloat" where
  "float_sum vs = foldl float_add (Fin 0) vs"

text \<open>The mean of a group, as \<^verbatim>\<open>groupby(...).agg(("european_aqi", "mean"))\<close> takes it: over
  the values that are not NaN, and NaN when there is none.\<close>

definition float_mean :: "pyfloat list \<Rightarrow> pyfloat" where
  "float_mean vs =
     (let ws = filter (\<lambda>v. \<not> isna_float v) vs in
      if ws = [] then NaN else float_div_count (float_sum ws) (length ws))"

text \<open>\<^verbatim>\<open>a <= b\<close> on floats, used to order the keys of the groups.\<close>

fun float_le :: "pyfloat \<Rightarrow> pyfloat \<Rightarrow> bool" where
  "float_le NaN _ = False"
| "float_le _ NaN = False"
| "float_le NInf _ = True"
| "float_le _ PInf = True"
| "float_le (Fin x) (Fin y) = (x \<le> y)"
| "float_le _ _ = False"

text \<open>
  The order of the group keys. pandas sorts the keys of the groups; on columns of
  strings and on columns of numbers that order is the one of \<open>cell_le\<close>, taken
  lexicographically over the five key columns.
\<close>

fun cell_le :: "cell \<Rightarrow> cell \<Rightarrow> bool" where
  "cell_le (CStr s) (CStr t) = (s \<le> t)"
| "cell_le (CNum a) (CNum b) = float_le a b"
| "cell_le (CNum a) _ = True"
| "cell_le _ _ = False"

fun key_le :: "cell list \<Rightarrow> cell list \<Rightarrow> bool" where
  "key_le [] _ = True"
| "key_le (a # as) [] = False"
| "key_le (a # as) (b # bs) = (if a = b then key_le as bs else cell_le a b)"

fun insert_key :: "cell list \<Rightarrow> cell list list \<Rightarrow> cell list list" where
  "insert_key k [] = [k]"
| "insert_key k (x # xs) = (if key_le k x then k # x # xs else x # insert_key k xs)"

definition sort_keys :: "cell list list \<Rightarrow> cell list list" where
  "sort_keys ks = foldr insert_key ks []"

definition key_labels :: "string list" where
  "key_labels = [''city'', ''country'', ''country_name'', ''latitude'', ''longitude'']"

definition group_key :: "table \<Rightarrow> cell list \<Rightarrow> cell list" where
  "group_key df r = map (\<lambda>l. r ! col_index df l) key_labels"

text \<open>The number in a cell of the column whose mean is taken.\<close>

fun cell_value :: "cell \<Rightarrow> pyfloat" where
  "cell_value (CNum v) = v"
| "cell_value _ = NaN"

fun is_number :: "cell \<Rightarrow> bool" where
  "is_number (CNum v) = True"
| "is_number _ = False"

text \<open>The values of \<^verbatim>\<open>european_aqi\<close> in the rows of the group with key \<open>k\<close>.\<close>

definition group_values :: "table \<Rightarrow> cell list \<Rightarrow> pyfloat list" where
  "group_values df k =
     map (\<lambda>r. cell_value (r ! col_index df ''european_aqi''))
       (filter (\<lambda>r. group_key df r = k) (rows df))"

text \<open>One row of the result: the key, the mean, its label and its colour.\<close>

definition point_row :: "table \<Rightarrow> cell list \<Rightarrow> cell list" where
  "point_row df k =
     (let m = float_mean (group_values df k) in
      k @ [CNum m, CStr (eaqi_label m), CStr (eaqi_color m)])"

text \<open>
  \<^verbatim>\<open>city_means_for_day\<close>. \<^verbatim>\<open>groupby\<close> raises \<^verbatim>\<open>KeyError\<close> on a label that is not a column
  and leaves out the rows with an absent key cell (\<^verbatim>\<open>dropna=True\<close>); with
  \<^verbatim>\<open>as_index=False\<close> the key columns come first. The mean is taken of a column of
  numbers: on a column that holds another cell the model answers \<open>TypeError\<close>, as
  pandas does for strings.
\<close>

definition city_means_for_day :: "table \<Rightarrow> error + table" where
  "city_means_for_day df_day =
     (case find (\<lambda>l. LStr l \<notin> set (columns df_day)) (key_labels @ [''european_aqi'']) of
        Some l \<Rightarrow> Inl (KeyError l)
      | None \<Rightarrow>
          if \<not> list_all is_number (getitem df_day ''european_aqi'') then Inl TypeError
          else
            (let present = filter (\<lambda>r. list_all (\<lambda>c. \<not> isna c) (group_key df_day r))
                             (rows df_day);
                 ks = sort_keys (remdups (map (group_key df_day) present))
             in Inr \<lparr>columns = map LStr (key_labels @ [''european_aqi'', ''label'', ''color'']),
                     rows = map (point_row df_day) ks\<rparr>))"

section \<open>A model of the pandas calls\<close>

text \<open>
  The properties below hold for every behaviour of the pandas calls. The examples are
  evaluated with the following model of them, which follows pandas on the inputs named
  here and is used on those only:
  \<^item> for \<^verbatim>\<open>to_numeric\<close>: cells that hold a number, which stay as they are, and
    strings: a decimal literal (an optional sign, digits, an optional point and digits)
    or one of the names \<^verbatim>\<open>inf\<close>, \<^verbatim>\<open>+inf\<close>, \<^verbatim>\<open>-inf\<close> is read as that number, and a
    text such as \<^verbatim>\<open>N/A\<close> or \<^verbatim>\<open>Paris\<close> is no number;
  \<^item> for \<^verbatim>\<open>to_datetime\<close>: cells that hold a date, and strings written
    \<^verbatim>\<open>YYYY-MM-DD\<close> in the years 1678 to 2261 that a nanosecond timestamp covers;
  \<^item> for \<^verbatim>\<open>read_csv\<close>: documents without quotes whose lines all have as many fields
    as the first, under non-empty, pairwise different names, a field being a number or
    a text as for \<^verbatim>\<open>to_numeric\<close>; on any other document the model answers
    \<open>Unmodelled\<close>.
\<close>

definition is_digit :: "char \<Rightarrow> bool" where
  "is_digit c = (48 \<le> (of_char c :: nat) \<and> (of_char c :: nat) \<le> 57)"

definition digit_val :: "char \<Rightarrow> nat" where
  "digit_val c = of_char c - 48"

definition nat_of_digits :: "string \<Rightarrow> nat" where
  "nat_of_digits ds = foldl (\<lambda>a c. 10 * a + digit_val c) 0 ds"

definition parse_decimal :: "string \<Rightarrow> real option" where
  "parse_decimal s =
     (let ip = takeWhile is_digit s in
      case dropWhile is_digit s of
        [] \<Rightarrow> if ip = [] then None else Some (real (nat_of_digits ip))
      | c # fp \<Rightarrow>
          if c = CHR ''.'' \<and> list_all is_digit fp \<and> (ip \<noteq> [] \<or> fp \<noteq> [])
          then Some (real (nat_of_digits (ip @ fp)) / 10 ^ length fp)
          else None)"

definition parse_float :: "string \<Rightarrow> pyfloat option" where
  "parse_float s =
     (if s = ''inf'' \<or> s = ''+inf'' then Some PInf
      else if s = ''-inf'' then Some NInf
      else case s of
        [] \<Rightarrow> None
      | c # t \<Rightarrow>
          if c = CHR ''-'' then map_option (\<lambda>x. Fin (- x)) (parse_decimal t)
          else if c = CHR ''+'' then map_option Fin (parse_decimal t)
          else map_option Fin (parse_decimal s))"

definition pd_to_numeric :: "cell list \<Rightarrow> cell \<Rightarrow> pyfloat" where
  "pd_to_numeric col c =
     (case c of
        CNum v \<Rightarrow> v
      | CStr s \<Rightarrow> (case parse_float s of Some v \<Rightarrow> v | None \<Rightarrow> NaN)
      | _ \<Rightarrow> NaN)"

definition days_in_month :: "nat \<Rightarrow> nat \<Rightarrow> nat" where
  "days_in_month y m =
     (if m = 2 then (if y mod 4 = 0 \<and> (y mod 100 \<noteq> 0 \<or> y mod 400 = 0) then 29 else 28)
      else if m \<in> {4, 6, 9, 11} then 30 else 31)"

definition parse_iso_date :: "string \<Rightarrow> date option" where
  "parse_iso_date s =
     (let ys = take 4 s; ms = take 2 (drop 5 s); ds = drop 8 s;
          y = nat_of_digits ys; m = nat_of_digits ms; d = nat_of_digits ds
      in if length s = 10 \<and> s ! 4 = CHR ''-'' \<and> s ! 7 = CHR ''-''
            \<and> list_all is_digit (ys @ ms @ ds)
            \<and> 1678 \<le> y \<and> y \<le> 2261 \<and> 1 \<le> m \<and> m \<le> 12 \<and> 1 \<le> d \<and> d \<le> days_in_month y m
         then Some (Date y m d) else None)"

definition pd_to_datetime :: "cell list \<Rightarrow> cell \<Rightarrow> date option" where
  "pd_to_datetime col c =
     (case c of
        CDate d \<Rightarrow> Some d
      | CStr s \<Rightarrow> parse_iso_date s
      | _ \<Rightarrow> None)"

text \<open>\<^verbatim>\<open>s.split(d)\<close>.\<close>

fun split_on :: "char \<Rightarrow> string \<Rightarrow> string list" where
  "split_on d [] = [[]]"
| "split_on d (c # cs) =
     (if c = d then [] # split_on d cs
      else (case split_on d cs of w # ws \<Rightarrow> (c # w) # ws | [] \<Rightarrow> [[c]]))"

text \<open>The texts that \<^verbatim>\<open>read_csv\<close> reads as an absent value.\<close>

definition na_values :: "string list" where
  "na_values =
     ['''', ''#N/A'', ''#N/A N/A'', ''#NA'', ''-1.#IND'', ''-1.#QNAN'', ''-NaN'', ''-nan'',
      ''1.#IND'', ''1.#QNAN'', ''<NA>'', ''N/A'', ''NA'', ''NULL'', ''NaN'', ''None'', ''n/a'',
      ''nan'', ''null'']"

text \<open>
  The cells of one column of the document: numbers when every field that is not an
  absent value reads as a number, strings otherwise; NaN for an absent value.
\<close>

definition infer_column :: "string list \<Rightarrow> cell list" where
  "infer_column fs =
     (if list_all (\<lambda>f. f \<in> set na_values \<or> parse_float f \<noteq> None) fs
      then map (\<lambda>f. if f \<in> set na_values then CNum NaN
                     else CNum (case parse_float f of Some v \<Rightarrow> v | None \<Rightarrow> NaN)) fs
      else map (\<lambda>f. if f \<in> set na_values then CNum NaN else CStr f) fs)"

definition pd_read_csv :: "string \<Rightarrow> error + table" where
  "pd_read_csv text =
     (case filter (\<lambda>l. l \<noteq> []) (split_on (CHR 0x0A) text) of
        [] \<Rightarrow> Inl ParserError
      | h # ls \<Rightarrow>
          (let names = split_on (CHR '','') h;
               fields = map (split_on (CHR '','')) ls
           in if [] \<in> set names \<or> \<not> distinct names
                 \<or> \<not> list_all (\<lambda>fs. length fs = length names) fields
              then Inl Unmodelled
              else
                (let cols = map (\<lambda>j. infer_column (map (\<lambda>fs. fs ! j) fields))
                              [0 ..< length names]
                 in Inr \<lparr>columns = map LStr names,
                         rows = map (\<lambda>i. map (\<lambda>col. col ! i) cols) [0 ..< length fields]\<rparr>)))"

definition pandas :: "(cell \<Rightarrow> string) \<Rightarrow> lib" where
  "pandas rp =
     \<lparr>read_csv = pd_read_csv, to_datetime = pd_to_datetime, to_numeric = pd_to_numeric,
      repr = rp\<rparr>"

section \<open>Table objects\<close>





section \<open>The claims in the words of the specification\<close>




text \<open>The six required columns are present.\<close>

definition has_needed :: "table \<Rightarrow> bool" where
  "has_needed df = list_all (\<lambda>n. LStr n \<in> set (columns df)) needed"

text \<open>The cell of row \<open>r\<close> in column \<open>l\<close>.\<close>

definition field :: "table \<Rightarrow> cell list \<Rightarrow> string \<Rightarrow> cell" where
  "field df r l = r ! col_index df l"

text \<open>
  A row whose date, latitude, longitude and index parse and whose city and country are
  present.
\<close>

definition row_complete :: "lib \<Rightarrow> table \<Rightarrow> cell list \<Rightarrow> bool" where
  "row_complete L df r =
     (to_datetime L (getitem df ''date'') (field df r ''date'') \<noteq> None
      \<and> \<not> isna_float (to_numeric L (getitem df ''latitude'') (field df r ''latitude''))
      \<and> \<not> isna_float (to_numeric L (getitem df ''longitude'') (field df r ''longitude''))
      \<and> \<not> isna_float (to_numeric L (getitem df ''european_aqi'') (field df r ''european_aqi''))
      \<and> \<not> isna (field df r ''city'')
      \<and> \<not> isna (field df r ''country''))"

text \<open>The row of the clean table that comes from row \<open>r\<close> of \<open>df\<close>.\<close>

definition clean_row :: "lib \<Rightarrow> table \<Rightarrow> cell list \<Rightarrow> cell list" where
  "clean_row L df r =
     (let r4 = r[col_index df ''date'' :=
                   dt_date (to_datetime L (getitem df ''date'') (field df r ''date'')),
                 col_index df ''latitude'' :=
                   CNum (to_numeric L (getitem df ''latitude'') (field df r ''latitude'')),
                 col_index df ''longitude'' :=
                   CNum (to_numeric L (getitem df ''longitude'') (field df r ''longitude'')),
                 col_index df ''european_aqi'' :=
                   CNum (to_numeric L (getitem df ''european_aqi'') (field df r ''european_aqi''))];
          cn = CStr (country_name (field df r ''country''))
      in if LStr ''country_name'' \<in> set (columns df)
         then r4[col_index df ''country_name'' := cn] else r4 @ [cn])"

text \<open>
  The model of the pandas calls used in the examples. The tables of the examples that
  are turned into text hold strings only, so the text of a number or a date is never
  asked for; it is left empty.
\<close>

definition pandas_plain :: lib where
  "pandas_plain = pandas (\<lambda>c. [])"

text \<open>
  A clean table, as the aggregator receives it: one cell per column, labels pairwise
  different, the five key columns and the index among them, and in every row no absent
  key cell and a number that is not NaN for the index.
\<close>

definition clean_table :: "table \<Rightarrow> bool" where
  "clean_table df =
     (wf_table df \<and> distinct (columns df)
      \<and> list_all (\<lambda>l. LStr l \<in> set (columns df)) (key_labels @ [''european_aqi''])
      \<and> list_all (\<lambda>r. list_all (\<lambda>c. \<not> isna c) (group_key df r)
                        \<and> is_number (field df r ''european_aqi'')
                        \<and> \<not> isna (field df r ''european_aqi'')) (rows df))"

section \<open>Example tables\<close>



definition six_columns :: "label list" where
  "six_columns = map LStr needed"





text \<open>
  Three rows under the six required columns: a complete row, a row whose latitude is
  no number, and a row whose country code is in no table.
\<close>

definition three_rows :: table where
  "three_rows =
     \<lparr>columns = six_columns,
      rows = [[CStr ''Paris'', CStr ''FR'', CStr ''2024-01-01'', CStr ''48.85'', CStr ''2.35'',
               CStr ''42''],
              [CStr ''Lyon'', CStr ''FR'', CStr ''2024-01-01'', CStr ''N/A'', CStr ''4.84'',
               CStr ''30''],
              [CStr ''Atlantis'', CStr ''zz'', CStr ''2024-01-01'', CNum (Fin 10), CNum (Fin 20),
               CNum (Fin 55)]]\<rparr>"







text \<open>
  Two measurements of one city on one day whose index cells hold the texts \<^verbatim>\<open>inf\<close> and
  \<^verbatim>\<open>-inf\<close>, which \<^verbatim>\<open>pd.to_numeric\<close> reads as the two infinities.
\<close>

definition inf_raw :: table where
  "inf_raw =
     \<lparr>columns = six_columns,
      rows = [[CStr ''Lyon'', CStr ''FR'', CStr ''2024-01-01'', CStr ''45.75'', CStr ''4.85'',
               CStr ''inf''],
              [CStr ''Lyon'', CStr ''FR'', CStr ''2024-01-01'', CStr ''45.75'', CStr ''4.85'',
               CStr ''-inf'']]\<rparr>"

definition inf_clean :: table where
  "inf_clean =
     \<lparr>columns = six_columns @ [LStr ''country_name''],
      rows = [[CStr ''Lyon'', CStr ''FR'', CDate (Date 2024 1 1), CNum (Fin (183 / 4)),
               CNum (Fin (97 / 20)), CNum PInf, CStr ''France''],
              [CStr ''Lyon'', CStr ''FR'', CDate (Date 2024 1 1), CNum (Fin (183 / 4)),
               CNum (Fin (97 / 20)), CNum NInf, CStr ''France'']]\<rparr>"

text \<open>The columns of the table of points.\<close>

definition point_columns :: "label list" where
  "point_columns = map LStr (key_labels @ [''european_aqi'', ''label'', ''color''])"


section \<open>Lemmas on strings\<close>

lemma char_of_eq_char_iff: "(char_of (n::nat) = c) = (n mod 256 = of_char c)"
proof
  assume "char_of n = c"
  then have "(of_char (char_of n) :: nat) = of_char c" by simp
  then show "n mod 256 = of_char c" by simp
next
  assume "n mod 256 = of_char c"
  then have "char_of (n mod 256) = (char_of (of_char c :: nat) :: char)" by simp
  then show "char_of n = c" by (simp add: char_of_eq_iff take_bit_eq_mod)
qed



















section \<open>Properties of the classification\<close>

lemmas config_defs =
  GOOD_MAX_def MEDIUM_MAX_def COLOR_GOOD_def COLOR_MED_def COLOR_BAD_def COLOR_UNKNOWN_def

text \<open>
  C1. The label function is total and follows the fixed thresholds: the absent value
  gives the Unknown tier (Inconnu); a value at most 40 gives Good (Bon), among them 40
  itself, zero, the negative numbers and minus infinity; a value above 40 and at most 80
  gives Medium (Moyen), among them 80 itself; a value above 80, plus infinity included,
  gives Bad (Mauvais).
\<close>

theorem eaqi_label_thresholds:
  "eaqi_label NaN = ''Inconnu''
   \<and> (\<forall>x. x \<le> 40 \<longrightarrow> eaqi_label (Fin x) = ''Bon'')
   \<and> (\<forall>x. 40 < x \<and> x \<le> 80 \<longrightarrow> eaqi_label (Fin x) = ''Moyen'')
   \<and> (\<forall>x. 80 < x \<longrightarrow> eaqi_label (Fin x) = ''Mauvais'')
   \<and> eaqi_label NInf = ''Bon'' \<and> eaqi_label PInf = ''Mauvais''"
  by (simp add: eaqi_label_def config_defs)

theorem eaqi_label_thresholds_witness:
  "eaqi_label NaN = ''Inconnu''
   \<and> eaqi_label (Fin 40) = ''Bon'' \<and> eaqi_label (Fin 0) = ''Bon''
   \<and> eaqi_label (Fin (- 5)) = ''Bon''
   \<and> eaqi_label (Fin (400001 / 10000)) = ''Moyen'' \<and> eaqi_label (Fin 80) = ''Moyen''
   \<and> eaqi_label (Fin (800001 / 10000)) = ''Mauvais''"
proof -
  note t = eaqi_label_thresholds
  have a: "eaqi_label NaN = ''Inconnu''" using t by blast
  have b: "\<And>x. x \<le> 40 \<Longrightarrow> eaqi_label (Fin x) = ''Bon''" using t by blast
  have c: "\<And>x. 40 < x \<Longrightarrow> x \<le> 80 \<Longrightarrow> eaqi_label (Fin x) = ''Moyen''" using t by blast
  have d: "\<And>x. 80 < x \<Longrightarrow> eaqi_label (Fin x) = ''Mauvais''" using t by blast
  show ?thesis
    using a b [of 40] b [of 0] b [of "- 5"] c [of "400001 / 10000"] c [of 80]
      d [of "800001 / 10000"]
    by simp
qed

text \<open>
  C2. Label and colour are two views of one partition: two values have the same label
  exactly when they have the same colour, each label goes with one colour constant,
  and for \<open>v1 \<le> 40 < v2 \<le> 80 < v3\<close> the three labels differ pairwise and so do the
  three colours.
\<close>

theorem label_color_same_partition:
  "(eaqi_label v = eaqi_label w \<longleftrightarrow> eaqi_color v = eaqi_color w)
   \<and> eaqi_color v = color_of_label (eaqi_label v)
   \<and> (v1 \<le> 40 \<and> 40 < v2 \<and> v2 \<le> 80 \<and> 80 < v3 \<longrightarrow>
        eaqi_label (Fin v1) \<noteq> eaqi_label (Fin v2)
      \<and> eaqi_label (Fin v2) \<noteq> eaqi_label (Fin v3)
      \<and> eaqi_label (Fin v1) \<noteq> eaqi_label (Fin v3)
      \<and> eaqi_color (Fin v1) \<noteq> eaqi_color (Fin v2)
      \<and> eaqi_color (Fin v2) \<noteq> eaqi_color (Fin v3)
      \<and> eaqi_color (Fin v1) \<noteq> eaqi_color (Fin v3))"
  by (simp add: eaqi_label_def eaqi_color_def color_of_label_def config_defs)

theorem label_color_same_partition_witness:
  "(eaqi_label NaN = eaqi_label (Fin 12) \<longleftrightarrow> eaqi_color NaN = eaqi_color (Fin 12))
   \<and> eaqi_color NaN = color_of_label (eaqi_label NaN)
   \<and> eaqi_label (Fin 40) \<noteq> eaqi_label (Fin 80)
   \<and> eaqi_label (Fin 80) \<noteq> eaqi_label (Fin 81)
   \<and> eaqi_label (Fin 40) \<noteq> eaqi_label (Fin 81)
   \<and> eaqi_color (Fin 40) \<noteq> eaqi_color (Fin 80)
   \<and> eaqi_color (Fin 80) \<noteq> eaqi_color (Fin 81)
   \<and> eaqi_color (Fin 40) \<noteq> eaqi_color (Fin 81)"
  using label_color_same_partition [of NaN "Fin 12" 40 80 81]
  by simp

section \<open>Country names: properties\<close>

lemmas string_eval = upper_def upper_char_def strip_def py_isspace_def char_of_eq_char_iff

text \<open>
  C7. \<^verbatim>\<open>country_name\<close> is a function of the country code alone: a string is stripped
  and upper-cased, then looked up in the static table, and passes through upper-cased
  when the table does not hold it, so two codes that agree after stripping and
  upper-casing get the same name; every input that is not a string gets the sentinel
  Inconnu. In particular fr gives France, zz gives ZZ and \<^verbatim>\<open>None\<close> gives Inconnu.
\<close>

theorem country_name_lookup:
  "country_name (CStr s) =
     (case map_of ISO2_TO_COUNTRY_FR (upper (strip s)) of
        Some n \<Rightarrow> n | None \<Rightarrow> upper (strip s))
   \<and> ((\<forall>t. code \<noteq> CStr t) \<longrightarrow> country_name code = ''Inconnu'')
   \<and> (upper (strip s) = upper (strip s') \<longrightarrow> country_name (CStr s) = country_name (CStr s'))
   \<and> country_name (CStr ''fr'') = ''France''
   \<and> country_name (CStr ''zz'') = ''ZZ''
   \<and> country_name CNone = ''Inconnu''"
proof -
  have a: "country_name (CStr s) =
     (case map_of ISO2_TO_COUNTRY_FR (upper (strip s)) of
        Some n \<Rightarrow> n | None \<Rightarrow> upper (strip s))" for s
    by (simp add: country_name_def Let_def)
  have b: "(\<forall>t. code \<noteq> CStr t) \<longrightarrow> country_name code = ''Inconnu''"
    by (cases code) (simp_all add: country_name_def)
  have c: "upper (strip s) = upper (strip s') \<longrightarrow> country_name (CStr s) = country_name (CStr s')"
  proof
    assume e: "upper (strip s) = upper (strip s')"
    show "country_name (CStr s) = country_name (CStr s')"
      by (simp only: a e)
  qed
  have fr: "upper (strip ''fr'') = ''FR''" by (simp add: string_eval)
  have zz: "upper (strip ''zz'') = ''ZZ''" by (simp add: string_eval)
  have d: "country_name (CStr ''fr'') = ''France''"
    unfolding a fr by (simp add: ISO2_TO_COUNTRY_FR_def)
  have e: "country_name (CStr ''zz'') = ''ZZ''"
    unfolding a zz by (simp add: ISO2_TO_COUNTRY_FR_def)
  have f: "country_name CNone = ''Inconnu''" by (simp add: country_name_def)
  from a b c d e f show ?thesis by blast
qed

theorem country_name_lookup_witness:
  "country_name (CStr ''  Fr '') = ''France''
   \<and> country_name (CNum (Fin 33)) = ''Inconnu''
   \<and> country_name (CStr ''  Fr '') = country_name (CStr ''fR'')
   \<and> country_name (CStr ''zz'') = ''ZZ''
   \<and> country_name CNone = ''Inconnu''"
proof -
  have u1: "upper (strip ''  Fr '') = ''FR''" by (simp add: string_eval)
  have u2: "upper (strip ''fR'') = ''FR''" by (simp add: string_eval)
  have m: "map_of ISO2_TO_COUNTRY_FR ''FR'' = Some ''France''"
    by (simp add: ISO2_TO_COUNTRY_FR_def)
  note t = country_name_lookup [of "''  Fr ''" "CNum (Fin 33)" "''fR''"]
  have 1: "country_name (CStr ''  Fr '') = ''France''"
    using t [THEN conjunct1] by (simp add: u1 m)
  have 2: "country_name (CNum (Fin 33)) = ''Inconnu''"
    using t [THEN conjunct2, THEN conjunct1] by simp
  have 3: "country_name (CStr ''  Fr '') = country_name (CStr ''fR'')"
    using t [THEN conjunct2, THEN conjunct2, THEN conjunct1] by (simp add: u1 u2)
  have 4: "country_name (CStr ''zz'') = ''ZZ'' \<and> country_name CNone = ''Inconnu''"
    using t by blast
  from 1 2 3 4 show ?thesis by blast
qed

section \<open>Lemmas on cleaning\<close>

lemma first_index_less: "x \<in> set xs \<Longrightarrow> length (takeWhile (\<lambda>c. c \<noteq> x) xs) < length xs"
  by (induction xs) auto

lemma first_index_nth: "x \<in> set xs \<Longrightarrow> xs ! length (takeWhile (\<lambda>c. c \<noteq> x) xs) = x"
  by (induction xs) auto

lemma col_index_less:
  "LStr l \<in> set (columns df) \<Longrightarrow> col_index df l < length (columns df)"
  unfolding col_index_def by (rule first_index_less)

lemma col_index_nth:
  "LStr l \<in> set (columns df) \<Longrightarrow> columns df ! col_index df l = LStr l"
  unfolding col_index_def by (rule first_index_nth)

lemma col_index_neq:
  assumes "LStr l \<in> set (columns df)" and "LStr l' \<in> set (columns df)" and "l \<noteq> l'"
  shows "col_index df l \<noteq> col_index df l'"
proof
  assume "col_index df l = col_index df l'"
  then have "columns df ! col_index df l = columns df ! col_index df l'" by simp
  then show False using assms by (simp add: col_index_nth)
qed

lemma has_neededD:
  assumes "has_needed df"
  shows "LStr ''city'' \<in> set (columns df)" "LStr ''country'' \<in> set (columns df)"
    "LStr ''date'' \<in> set (columns df)" "LStr ''latitude'' \<in> set (columns df)"
    "LStr ''longitude'' \<in> set (columns df)" "LStr ''european_aqi'' \<in> set (columns df)"
  using assms by (simp_all add: has_needed_def needed_def)

lemma map2_maps: "map2 F (map g xs) (map k xs) = map (\<lambda>x. F (g x) (k x)) xs"
  by (induction xs) simp_all

lemma getitem_step:
  assumes "columns t = columns df" and "rows t = map g (rows df)"
    and "\<And>r. g r ! col_index df l = r ! col_index df l"
  shows "getitem t l = getitem df l"
proof -
  have "col_index t l = col_index df l" using assms(1) by (simp add: col_index_def)
  then show ?thesis using assms(2,3) by (simp add: getitem_def)
qed

lemma setitem_step:
  assumes c: "columns t = columns df" and r: "rows t = map g (rows df)"
    and p: "LStr l \<in> set (columns df)"
    and g: "\<And>r. g r ! col_index df l = r ! col_index df l"
  shows "setitem t l (map f (getitem t l)) =
     \<lparr>columns = columns df,
      rows = map (\<lambda>r. (g r)[col_index df l := f (r ! col_index df l)]) (rows df)\<rparr>"
proof -
  have i: "col_index t l = col_index df l" using c by (simp add: col_index_def)
  have gi: "getitem t l = map (\<lambda>r. r ! col_index df l) (rows df)"
    using getitem_step [OF c r g] by (simp add: getitem_def)
  have "setitem t l (map f (getitem t l)) =
      t\<lparr>rows := map2 (\<lambda>r v. r[col_index df l := v]) (map g (rows df))
                    (map (\<lambda>r. f (r ! col_index df l)) (rows df))\<rparr>"
    using p c by (simp add: setitem_def i gi r o_def)
  also have "\<dots> = \<lparr>columns = columns df,
      rows = map (\<lambda>r. (g r)[col_index df l := f (r ! col_index df l)]) (rows df)\<rparr>"
    by (simp only: map2_maps) (simp add: c)
  finally show ?thesis .
qed

lemma setitem_step2:
  assumes c: "columns t = columns df" and r: "rows t = map g (rows df)"
    and p: "LStr l \<in> set (columns df)"
    and g: "\<And>r. g r ! col_index df l = r ! col_index df l"
  shows "setitem t l (map f (getitem df l)) =
     \<lparr>columns = columns df,
      rows = map (\<lambda>r. (g r)[col_index df l := f (r ! col_index df l)]) (rows df)\<rparr>"
  using setitem_step [OF c r p g, of f] getitem_step [OF c r g] by simp

lemma setitem_other:
  assumes c: "columns t = columns df" and r: "rows t = map g (rows df)"
    and g: "\<And>r. g r ! col_index df l' = r ! col_index df l'"
  shows "setitem t l (map f (getitem t l')) =
     (if LStr l \<in> set (columns df)
      then \<lparr>columns = columns df,
            rows = map (\<lambda>r. (g r)[col_index df l := f (r ! col_index df l')]) (rows df)\<rparr>
      else \<lparr>columns = columns df @ [LStr l],
            rows = map (\<lambda>r. g r @ [f (r ! col_index df l')]) (rows df)\<rparr>)"
proof -
  have i: "col_index t l = col_index df l" using c by (simp add: col_index_def)
  have gi: "map f (getitem t l') = map (\<lambda>r. f (r ! col_index df l')) (rows df)"
    using getitem_step [OF c r g] by (simp add: getitem_def)
  show ?thesis
    unfolding setitem_def gi r i c by (simp add: map2_maps c)
qed

lemma coerce_columns_rows:
  assumes "has_needed df"
  shows "coerce_columns L df =
     \<lparr>columns = (if LStr ''country_name'' \<in> set (columns df) then columns df
                  else columns df @ [LStr ''country_name'']),
      rows = map (clean_row L df) (rows df)\<rparr>"
proof -
  note p = has_neededD [OF assms]
  note neq = col_index_neq [of _ df]
  let ?fd = "\<lambda>c. dt_date (to_datetime L (getitem df ''date'') c)"
  let ?fn = "\<lambda>l c. CNum (to_numeric L (getitem df l) c)"
  let ?g1 = "\<lambda>r. r[col_index df ''date'' := ?fd (r ! col_index df ''date'')]"
  let ?g2 = "\<lambda>r. (?g1 r)[col_index df ''latitude'' := ?fn ''latitude'' (r ! col_index df ''latitude'')]"
  let ?g3 = "\<lambda>r. (?g2 r)[col_index df ''longitude'' := ?fn ''longitude'' (r ! col_index df ''longitude'')]"
  let ?g4 = "\<lambda>r. (?g3 r)[col_index df ''european_aqi'' := ?fn ''european_aqi'' (r ! col_index df ''european_aqi'')]"
  define df1 where "df1 = setitem df ''date'' (parse_dates L (getitem df ''date''))"
  define df2 where "df2 = setitem df1 ''latitude'' (parse_numbers L (getitem df1 ''latitude''))"
  define df3 where "df3 = setitem df2 ''longitude'' (parse_numbers L (getitem df2 ''longitude''))"
  define df4 where "df4 = setitem df3 ''european_aqi'' (parse_numbers L (getitem df3 ''european_aqi''))"
  have 1: "df1 = \<lparr>columns = columns df, rows = map ?g1 (rows df)\<rparr>"
    unfolding df1_def parse_dates_def
    by (rule setitem_step2 [of df df "\<lambda>r. r", simplified]) (simp_all add: p)
  have n2: "?g1 r ! col_index df ''latitude'' = r ! col_index df ''latitude''" for r
    using p by (simp add: neq)
  have e2: "getitem df1 ''latitude'' = getitem df ''latitude''"
    by (rule getitem_step [OF _ _ n2]) (simp_all add: 1)
  have 2: "df2 = \<lparr>columns = columns df, rows = map ?g2 (rows df)\<rparr>"
    unfolding df2_def parse_numbers_def e2
    by (rule setitem_step2 [OF _ _ _ n2]) (simp_all add: 1 p)
  have n3: "?g2 r ! col_index df ''longitude'' = r ! col_index df ''longitude''" for r
    using p by (simp add: neq)
  have e3: "getitem df2 ''longitude'' = getitem df ''longitude''"
    by (rule getitem_step [OF _ _ n3]) (simp_all add: 2)
  have 3: "df3 = \<lparr>columns = columns df, rows = map ?g3 (rows df)\<rparr>"
    unfolding df3_def parse_numbers_def e3
    by (rule setitem_step2 [OF _ _ _ n3]) (simp_all add: 2 p)
  have n4: "?g3 r ! col_index df ''european_aqi'' = r ! col_index df ''european_aqi''" for r
    using p by (simp add: neq)
  have e4: "getitem df3 ''european_aqi'' = getitem df ''european_aqi''"
    by (rule getitem_step [OF _ _ n4]) (simp_all add: 3)
  have 4: "df4 = \<lparr>columns = columns df, rows = map ?g4 (rows df)\<rparr>"
    unfolding df4_def parse_numbers_def e4
    by (rule setitem_step2 [OF _ _ _ n4]) (simp_all add: 3 p)
  have n5: "?g4 r ! col_index df ''country'' = r ! col_index df ''country''" for r
    using p by (simp add: neq)
  have "coerce_columns L df =
      setitem df4 ''country_name'' (map (\<lambda>c. CStr (country_name c)) (getitem df4 ''country''))"
    by (simp add: coerce_columns_def Let_def df1_def df2_def df3_def df4_def)
  also have "\<dots> =
     (if LStr ''country_name'' \<in> set (columns df)
      then \<lparr>columns = columns df,
            rows = map (\<lambda>r. (?g4 r)[col_index df ''country_name'' :=
                                 CStr (country_name (r ! col_index df ''country''))]) (rows df)\<rparr>
      else \<lparr>columns = columns df @ [LStr ''country_name''],
            rows = map (\<lambda>r. ?g4 r @ [CStr (country_name (r ! col_index df ''country''))])
                     (rows df)\<rparr>)"
    by (rule setitem_other [OF _ _ n5]) (simp_all add: 4)
  also have "\<dots> = \<lparr>columns = (if LStr ''country_name'' \<in> set (columns df) then columns df
                  else columns df @ [LStr ''country_name'']),
      rows = map (clean_row L df) (rows df)\<rparr>"
    by (simp add: clean_row_def field_def Let_def)
  finally show ?thesis .
qed

lemma dt_date_isna: "isna (dt_date x) = (x = None)"
  by (cases x) simp_all

lemma clean_row_cells:
  assumes h: "has_needed df" and len: "length r = length (columns df)"
  shows "clean_row L df r ! col_index df ''date'' =
           dt_date (to_datetime L (getitem df ''date'') (field df r ''date''))"
    and "clean_row L df r ! col_index df ''latitude'' =
           CNum (to_numeric L (getitem df ''latitude'') (field df r ''latitude''))"
    and "clean_row L df r ! col_index df ''longitude'' =
           CNum (to_numeric L (getitem df ''longitude'') (field df r ''longitude''))"
    and "clean_row L df r ! col_index df ''european_aqi'' =
           CNum (to_numeric L (getitem df ''european_aqi'') (field df r ''european_aqi''))"
    and "clean_row L df r ! col_index df ''city'' = field df r ''city''"
    and "clean_row L df r ! col_index df ''country'' = field df r ''country''"
proof -
  note p = has_neededD [OF h]
  note neq = col_index_neq [of _ df]
  note less = p [THEN col_index_less, folded len]
  have cn: "LStr ''country_name'' \<in> set (columns df) \<Longrightarrow>
      col_index df ''country_name'' \<noteq> col_index df l" if "LStr l \<in> set (columns df)" "l \<noteq> ''country_name''" for l
    using that by (simp add: neq)
  show "clean_row L df r ! col_index df ''date'' =
           dt_date (to_datetime L (getitem df ''date'') (field df r ''date''))"
    using p less cn [of "''date''"] by (simp add: clean_row_def Let_def nth_append neq)
  show "clean_row L df r ! col_index df ''latitude'' =
           CNum (to_numeric L (getitem df ''latitude'') (field df r ''latitude''))"
    using p less cn [of "''latitude''"] by (simp add: clean_row_def Let_def nth_append neq)
  show "clean_row L df r ! col_index df ''longitude'' =
           CNum (to_numeric L (getitem df ''longitude'') (field df r ''longitude''))"
    using p less cn [of "''longitude''"] by (simp add: clean_row_def Let_def nth_append neq)
  show "clean_row L df r ! col_index df ''european_aqi'' =
           CNum (to_numeric L (getitem df ''european_aqi'') (field df r ''european_aqi''))"
    using p less cn [of "''european_aqi''"] by (simp add: clean_row_def Let_def nth_append neq)
  show "clean_row L df r ! col_index df ''city'' = field df r ''city''"
    using p less cn [of "''city''"] by (simp add: clean_row_def Let_def nth_append neq field_def)
  show "clean_row L df r ! col_index df ''country'' = field df r ''country''"
    using p less cn [of "''country''"] by (simp add: clean_row_def Let_def nth_append neq field_def)
qed

lemma col_index_coerce:
  assumes h: "has_needed df" and l: "LStr l \<in> set (columns df)"
  shows "col_index (coerce_columns L df) l = col_index df l"
  using l by (simp add: coerce_columns_rows [OF h] col_index_def)

lemma clean_row_complete:
  assumes h: "has_needed df" and len: "length r = length (columns df)"
  shows "list_all (\<lambda>l. \<not> isna (clean_row L df r ! col_index (coerce_columns L df) l))
           [''date'', ''latitude'', ''longitude'', ''european_aqi'', ''city'', ''country'']
         = row_complete L df r"
  using has_neededD [OF h]
  by (simp add: col_index_coerce [OF h] clean_row_cells [OF h len] dt_date_isna row_complete_def)

lemma prepare_rows:
  assumes wf: "wf_table df" and h: "has_needed df"
  shows "prepare L df =
     Inr \<lparr>columns = (if LStr ''country_name'' \<in> set (columns df) then columns df
                      else columns df @ [LStr ''country_name'']),
          rows = map (clean_row L df) (filter (row_complete L df) (rows df))\<rparr>"
proof -
  have m: "filter (\<lambda>n. LStr n \<notin> set (columns df)) needed = []"
    using h by (simp add: has_needed_def list_all_iff filter_empty_conv)
  have len: "length r = length (columns df)" if "r \<in> set (rows df)" for r
    using wf that by (simp add: wf_table_def list_all_iff)
  have f: "filter ((\<lambda>r. list_all (\<lambda>l. \<not> isna (r ! col_index (coerce_columns L df) l))
           [''date'', ''latitude'', ''longitude'', ''european_aqi'', ''city'', ''country'']) \<circ> clean_row L df)
        (rows df) = filter (row_complete L df) (rows df)"
    by (rule filter_cong [OF refl]) (simp only: o_def clean_row_complete [OF h len])
  have "prepare L df = Inr (dropna (coerce_columns L df)
      [''date'', ''latitude'', ''longitude'', ''european_aqi'', ''city'', ''country''])"
    by (simp add: prepare_def m)
  also have "\<dots> = Inr \<lparr>columns = (if LStr ''country_name'' \<in> set (columns df) then columns df
                      else columns df @ [LStr ''country_name'']),
          rows = map (clean_row L df) (filter (row_complete L df) (rows df))\<rparr>"
    unfolding dropna_def
    by (simp only: f [symmetric] filter_map [symmetric]) (simp add: coerce_columns_rows [OF h])
  finally show ?thesis .
qed

section \<open>Cleaning: properties\<close>




lemmas number_eval = parse_float_def parse_decimal_def is_digit_def nat_of_digits_def digit_val_def

text \<open>Evaluation of the example \<open>three_rows\<close>.\<close>

lemma three_rows_index:
  "col_index three_rows ''city'' = 0" "col_index three_rows ''country'' = 1"
  "col_index three_rows ''date'' = 2" "col_index three_rows ''latitude'' = 3"
  "col_index three_rows ''longitude'' = 4" "col_index three_rows ''european_aqi'' = 5"
  by (simp_all add: col_index_def three_rows_def six_columns_def needed_def)

lemma iso_date: "parse_iso_date ''2024-01-01'' = Some (Date 2024 1 1)"
  by (simp add: parse_iso_date_def Let_def is_digit_def nat_of_digits_def digit_val_def
      days_in_month_def)

lemma numbers:
  "parse_float ''48.85'' = Some (Fin (4885 / 100))" "parse_float ''2.35'' = Some (Fin (235 / 100))"
  "parse_float ''42'' = Some (Fin 42)" "parse_float ''N/A'' = None"
  "parse_float ''4.84'' = Some (Fin (484 / 100))" "parse_float ''30'' = Some (Fin 30)"
  by (simp_all add: number_eval)

lemma three_rows_rows:
  "rows three_rows =
     [[CStr ''Paris'', CStr ''FR'', CStr ''2024-01-01'', CStr ''48.85'', CStr ''2.35'', CStr ''42''],
      [CStr ''Lyon'', CStr ''FR'', CStr ''2024-01-01'', CStr ''N/A'', CStr ''4.84'', CStr ''30''],
      [CStr ''Atlantis'', CStr ''zz'', CStr ''2024-01-01'', CNum (Fin 10), CNum (Fin 20),
       CNum (Fin 55)]]"
  by (simp add: three_rows_def)

lemma three_rows_row_complete:
  "row_complete (pandas rp) three_rows
     [CStr ''Paris'', CStr ''FR'', CStr ''2024-01-01'', CStr ''48.85'', CStr ''2.35'', CStr ''42'']"
  "\<not> row_complete (pandas rp) three_rows
     [CStr ''Lyon'', CStr ''FR'', CStr ''2024-01-01'', CStr ''N/A'', CStr ''4.84'', CStr ''30'']"
  "row_complete (pandas rp) three_rows
     [CStr ''Atlantis'', CStr ''zz'', CStr ''2024-01-01'', CNum (Fin 10), CNum (Fin 20),
       CNum (Fin 55)]"
  by (simp_all add: row_complete_def field_def three_rows_index pandas_def pd_to_numeric_def
      pd_to_datetime_def iso_date numbers)

lemma three_rows_complete:
  "filter (row_complete (pandas rp) three_rows) (rows three_rows) =
     [[CStr ''Paris'', CStr ''FR'', CStr ''2024-01-01'', CStr ''48.85'', CStr ''2.35'', CStr ''42''],
      [CStr ''Atlantis'', CStr ''zz'', CStr ''2024-01-01'', CNum (Fin 10), CNum (Fin 20),
       CNum (Fin 55)]]"
  unfolding three_rows_rows by (simp add: three_rows_row_complete)

lemma zz: "country_name (CStr ''zz'') = ''ZZ''"
  by (simp add: country_name_def Let_def string_eval ISO2_TO_COUNTRY_FR_def)

lemma fr: "country_name (CStr ''FR'') = ''France''"
  by (simp add: country_name_def Let_def string_eval ISO2_TO_COUNTRY_FR_def)

lemma three_rows_columns: "LStr ''country_name'' \<notin> set (columns three_rows)"
  by (simp add: three_rows_def six_columns_def needed_def)

lemma three_rows_clean:
  "clean_row (pandas rp) three_rows
     [CStr ''Paris'', CStr ''FR'', CStr ''2024-01-01'', CStr ''48.85'', CStr ''2.35'', CStr ''42'']
   = [CStr ''Paris'', CStr ''FR'', CDate (Date 2024 1 1), CNum (Fin (4885 / 100)),
      CNum (Fin (235 / 100)), CNum (Fin 42), CStr ''France'']"
  "clean_row (pandas rp) three_rows
     [CStr ''Atlantis'', CStr ''zz'', CStr ''2024-01-01'', CNum (Fin 10), CNum (Fin 20),
       CNum (Fin 55)]
   = [CStr ''Atlantis'', CStr ''zz'', CDate (Date 2024 1 1), CNum (Fin 10), CNum (Fin 20),
       CNum (Fin 55), CStr ''ZZ'']"
  by (simp_all add: clean_row_def Let_def field_def three_rows_index pandas_def pd_to_numeric_def
      pd_to_datetime_def iso_date numbers zz fr three_rows_columns)

text \<open>
  C4. For every table that has the six required columns (each row holding one cell per
  column, the labels pairwise different), \<^verbatim>\<open>prepare\<close> returns the rows whose date,
  latitude, longitude and index parse and whose city and country are present, in their
  order, each with the parsed cells in place of the raw ones and with its country name;
  whether the country code is in the table of names plays no part in \<open>row_complete\<close>.
  In the example the row with the latitude N/A is left out, the complete row is kept,
  and the row with the unknown code zz is kept under the name ZZ.
\<close>

theorem prepare_keeps_complete_rows:
  assumes "wf_table df" and "distinct (columns df)" and "has_needed df"
  shows "prepare L df =
     Inr \<lparr>columns = (if LStr ''country_name'' \<in> set (columns df) then columns df
                      else columns df @ [LStr ''country_name'']),
          rows = map (clean_row L df) (filter (row_complete L df) (rows df))\<rparr>"
  using assms(1,3) by (rule prepare_rows)

theorem prepare_keeps_complete_rows_witness:
  "\<forall>rp. prepare (pandas rp) three_rows =
     Inr \<lparr>columns = six_columns @ [LStr ''country_name''],
          rows = [[CStr ''Paris'', CStr ''FR'', CDate (Date 2024 1 1), CNum (Fin (4885 / 100)),
                   CNum (Fin (235 / 100)), CNum (Fin 42), CStr ''France''],
                  [CStr ''Atlantis'', CStr ''zz'', CDate (Date 2024 1 1), CNum (Fin 10),
                   CNum (Fin 20), CNum (Fin 55), CStr ''ZZ'']]\<rparr>"
proof
  fix rp
  have w: "wf_table three_rows"
    by (simp add: wf_table_def three_rows_def six_columns_def needed_def)
  have d: "distinct (columns three_rows)"
    by (simp add: three_rows_def six_columns_def needed_def)
  have h: "has_needed three_rows"
    by (simp add: has_needed_def needed_def three_rows_def six_columns_def)
  have c: "LStr ''country_name'' \<notin> set (columns three_rows)"
    by (simp add: three_rows_def six_columns_def needed_def)
  have s: "columns three_rows = six_columns" by (simp add: three_rows_def)
  show "prepare (pandas rp) three_rows =
     Inr \<lparr>columns = six_columns @ [LStr ''country_name''],
          rows = [[CStr ''Paris'', CStr ''FR'', CDate (Date 2024 1 1), CNum (Fin (4885 / 100)),
                   CNum (Fin (235 / 100)), CNum (Fin 42), CStr ''France''],
                  [CStr ''Atlantis'', CStr ''zz'', CDate (Date 2024 1 1), CNum (Fin 10),
                   CNum (Fin 20), CNum (Fin 55), CStr ''ZZ'']]\<rparr>"
    using prepare_keeps_complete_rows [OF w d h, of "pandas rp"] c
    by (simp only: three_rows_complete three_rows_clean list.map if_False s)
qed

section \<open>Loading: properties\<close>













section \<open>Normalising: properties\<close>











section \<open>Aggregation: properties\<close>

lemma set_insert_key: "set (insert_key k xs) = insert k (set xs)"
  by (induction xs) auto

lemma distinct_insert_key: "distinct (insert_key k xs) = (k \<notin> set xs \<and> distinct xs)"
  by (induction xs) (auto simp: set_insert_key)

lemma set_sort_keys: "set (sort_keys ks) = set ks"
  unfolding sort_keys_def by (induction ks) (simp_all add: set_insert_key)

lemma distinct_sort_keys: "distinct ks \<Longrightarrow> distinct (sort_keys ks)"
  unfolding sort_keys_def
  by (induction ks) (simp_all add: distinct_insert_key set_sort_keys [unfolded sort_keys_def])

lemma foldl_float_add_fin: "foldl float_add (Fin a) (map Fin xs) = Fin (a + sum_list xs)"
  by (induction xs arbitrary: a) (simp_all add: add.assoc)

lemma float_mean_fin:
  "xs \<noteq> [] \<Longrightarrow> float_mean (map Fin xs) = Fin (sum_list xs / real (length xs))"
  by (simp add: float_mean_def float_sum_def foldl_float_add_fin filter_map o_def)

lemma length_group_key: "length (group_key df r) = length key_labels"
  by (simp add: group_key_def)

lemma take_point_row: "length k = length key_labels \<Longrightarrow> take (length key_labels) (point_row df k) = k"
  by (simp add: point_row_def Let_def)

lemma city_means_for_day_clean:
  assumes "clean_table df"
  shows "\<exists>ks. city_means_for_day df = Inr \<lparr>columns = point_columns, rows = map (point_row df) ks\<rparr>
           \<and> distinct ks \<and> set ks = set (map (group_key df) (rows df))
           \<and> map (take (length key_labels)) (map (point_row df) ks) = ks
           \<and> (\<forall>k \<in> set ks. \<exists>m. m = float_mean (group_values df k)
                 \<and> point_row df k = k @ [CNum m, CStr (eaqi_label m), CStr (eaqi_color m)]
                 \<and> (\<forall>xs. group_values df k = map Fin xs \<longrightarrow>
                       xs \<noteq> [] \<and> m = Fin (sum_list xs / real (length xs))))"
proof -
  let ?present = "filter (\<lambda>r. list_all (\<lambda>c. \<not> isna c) (group_key df r)) (rows df)"
  let ?ks = "sort_keys (remdups (map (group_key df) ?present))"
  from assms have cols: "list_all (\<lambda>l. LStr l \<in> set (columns df)) (key_labels @ [''european_aqi''])"
    and rws: "list_all (\<lambda>r. list_all (\<lambda>c. \<not> isna c) (group_key df r)
                        \<and> is_number (field df r ''european_aqi'')
                        \<and> \<not> isna (field df r ''european_aqi'')) (rows df)"
    by (simp_all add: clean_table_def)
  have f: "find (\<lambda>l. LStr l \<notin> set (columns df)) (key_labels @ [''european_aqi'']) = None"
    using cols by (auto simp: find_None_iff list_all_iff)
  have n: "list_all is_number (getitem df ''european_aqi'')"
    using rws by (simp add: getitem_def field_def list_all_iff)
  have p: "?present = rows df"
    using rws by (simp add: list_all_iff)
  have c: "city_means_for_day df = Inr \<lparr>columns = point_columns, rows = map (point_row df) ?ks\<rparr>"
    by (simp add: city_means_for_day_def f n point_columns_def Let_def)
  have d: "distinct ?ks" by (simp add: distinct_sort_keys)
  have s: "set ?ks = set (map (group_key df) (rows df))" by (simp add: set_sort_keys p)
  have t: "map (take (length key_labels)) (map (point_row df) ?ks) = ?ks"
  proof -
    have "take (length key_labels) (point_row df k) = k" if "k \<in> set ?ks" for k
      using that s by (auto simp: take_point_row length_group_key)
    then show ?thesis by (simp add: map_idI)
  qed
  have m: "\<forall>k \<in> set ?ks. \<exists>m. m = float_mean (group_values df k)
                 \<and> point_row df k = k @ [CNum m, CStr (eaqi_label m), CStr (eaqi_color m)]
                 \<and> (\<forall>xs. group_values df k = map Fin xs \<longrightarrow>
                       xs \<noteq> [] \<and> m = Fin (sum_list xs / real (length xs)))"
  proof
    fix k assume k: "k \<in> set ?ks"
    then obtain r where r: "r \<in> set (rows df)" "group_key df r = k" using s by auto
    then have ne: "group_values df k \<noteq> []"
      by (auto simp: group_values_def filter_empty_conv)
    have "\<forall>xs. group_values df k = map Fin xs \<longrightarrow>
            xs \<noteq> [] \<and> float_mean (group_values df k) = Fin (sum_list xs / real (length xs))"
      using ne by (auto simp: float_mean_fin)
    then show "\<exists>m. m = float_mean (group_values df k)
                 \<and> point_row df k = k @ [CNum m, CStr (eaqi_label m), CStr (eaqi_color m)]
                 \<and> (\<forall>xs. group_values df k = map Fin xs \<longrightarrow>
                       xs \<noteq> [] \<and> m = Fin (sum_list xs / real (length xs)))"
      by (simp add: point_row_def Let_def)
  qed
  from c d s t m show ?thesis by blast
qed

lemma singleton_keys:
  "distinct ks \<Longrightarrow> set ks = {k} \<Longrightarrow> ks = [k]"
  by (metis distinct.simps(2) empty_iff empty_set insert_iff list.exhaust list.set_intros(1)
      list.set_intros(2))

lemma known_tier:
  "\<not> isna_float m \<Longrightarrow>
     eaqi_label m \<in> {''Bon'', ''Moyen'', ''Mauvais''}
     \<and> eaqi_color m \<in> {COLOR_GOOD, COLOR_MED, COLOR_BAD}"
  by (simp add: eaqi_label_def eaqi_color_def)

text \<open>Evaluation of the example \<open>lyon_day\<close>.\<close>

lemma seven_index:
  assumes "columns df = six_columns @ [LStr ''country_name'']"
  shows "col_index df ''city'' = 0" "col_index df ''country'' = 1"
    "col_index df ''latitude'' = 3" "col_index df ''longitude'' = 4"
    "col_index df ''european_aqi'' = 5" "col_index df ''country_name'' = 6"
  by (simp_all add: col_index_def assms six_columns_def needed_def)

lemma seven_present:
  assumes "columns df = six_columns @ [LStr ''country_name'']"
  shows "find (\<lambda>l. LStr l \<notin> set (columns df)) (key_labels @ [''european_aqi'']) = None"
  by (simp add: assms six_columns_def needed_def key_labels_def)









text \<open>Evaluation of the example \<open>inf_raw\<close>.\<close>

lemma inf_numbers:
  "parse_float ''inf'' = Some PInf" "parse_float ''-inf'' = Some NInf"
  "parse_float ''45.75'' = Some (Fin (183 / 4))" "parse_float ''4.85'' = Some (Fin (97 / 20))"
  by (simp_all add: number_eval)

lemma inf_index:
  "col_index inf_raw ''city'' = 0" "col_index inf_raw ''country'' = 1"
  "col_index inf_raw ''date'' = 2" "col_index inf_raw ''latitude'' = 3"
  "col_index inf_raw ''longitude'' = 4" "col_index inf_raw ''european_aqi'' = 5"
  by (simp_all add: col_index_def inf_raw_def six_columns_def needed_def)

lemma inf_rows:
  "rows inf_raw =
     [[CStr ''Lyon'', CStr ''FR'', CStr ''2024-01-01'', CStr ''45.75'', CStr ''4.85'', CStr ''inf''],
      [CStr ''Lyon'', CStr ''FR'', CStr ''2024-01-01'', CStr ''45.75'', CStr ''4.85'', CStr ''-inf'']]"
  by (simp add: inf_raw_def)

lemma inf_no_name: "LStr ''country_name'' \<notin> set (columns inf_raw)"
  by (simp add: inf_raw_def six_columns_def needed_def)

lemma inf_prepare: "prepare pandas_plain inf_raw = Inr inf_clean"
proof -
  have w: "wf_table inf_raw" by (simp add: wf_table_def inf_raw_def six_columns_def needed_def)
  have h: "has_needed inf_raw" by (simp add: has_needed_def needed_def inf_raw_def six_columns_def)
  have f: "filter (row_complete pandas_plain inf_raw) (rows inf_raw) = rows inf_raw"
    unfolding inf_rows
    by (simp add: row_complete_def field_def inf_index pandas_plain_def pandas_def
        pd_to_numeric_def pd_to_datetime_def iso_date inf_numbers)
  have m: "map (clean_row pandas_plain inf_raw) (rows inf_raw) = rows inf_clean"
    unfolding inf_rows
    by (simp add: clean_row_def Let_def field_def inf_index pandas_plain_def pandas_def
        pd_to_numeric_def pd_to_datetime_def iso_date inf_numbers fr inf_no_name inf_clean_def)
  have c: "columns inf_raw @ [LStr ''country_name''] = columns inf_clean"
    by (simp add: inf_raw_def inf_clean_def)
  show ?thesis
    unfolding prepare_rows [OF w h] f m using inf_no_name by (simp add: c)
qed

lemma inf_clean_columns: "columns inf_clean = six_columns @ [LStr ''country_name'']"
  by (simp add: inf_clean_def)

lemma inf_clean_rows:
  "rows inf_clean =
     [[CStr ''Lyon'', CStr ''FR'', CDate (Date 2024 1 1), CNum (Fin (183 / 4)),
       CNum (Fin (97 / 20)), CNum PInf, CStr ''France''],
      [CStr ''Lyon'', CStr ''FR'', CDate (Date 2024 1 1), CNum (Fin (183 / 4)),
       CNum (Fin (97 / 20)), CNum NInf, CStr ''France'']]"
  by (simp add: inf_clean_def)

lemma inf_clean_table: "clean_table inf_clean"
proof -
  have "wf_table inf_clean" "distinct (columns inf_clean)"
    "list_all (\<lambda>l. LStr l \<in> set (columns inf_clean)) (key_labels @ [''european_aqi''])"
    by (simp_all add: inf_clean_def wf_table_def six_columns_def needed_def key_labels_def)
  moreover have "list_all (\<lambda>r. list_all (\<lambda>c. \<not> isna c) (group_key inf_clean r)
                        \<and> is_number (field inf_clean r ''european_aqi'')
                        \<and> \<not> isna (field inf_clean r ''european_aqi'')) (rows inf_clean)"
    unfolding inf_clean_rows
    by (simp add: field_def group_key_def key_labels_def seven_index [OF inf_clean_columns])
  ultimately show ?thesis by (simp add: clean_table_def)
qed

lemma inf_key:
  "map (group_key inf_clean) (rows inf_clean) =
     [[CStr ''Lyon'', CStr ''FR'', CStr ''France'', CNum (Fin (183 / 4)), CNum (Fin (97 / 20))],
      [CStr ''Lyon'', CStr ''FR'', CStr ''France'', CNum (Fin (183 / 4)), CNum (Fin (97 / 20))]]"
  unfolding inf_clean_rows
  by (simp add: group_key_def key_labels_def seven_index [OF inf_clean_columns])

lemma inf_values:
  "group_values inf_clean
     [CStr ''Lyon'', CStr ''FR'', CStr ''France'', CNum (Fin (183 / 4)), CNum (Fin (97 / 20))]
   = [PInf, NInf]"
  unfolding group_values_def inf_clean_rows
  by (simp add: group_key_def key_labels_def seven_index [OF inf_clean_columns])

lemma inf_point:
  "point_row inf_clean
     [CStr ''Lyon'', CStr ''FR'', CStr ''France'', CNum (Fin (183 / 4)), CNum (Fin (97 / 20))]
   = [CStr ''Lyon'', CStr ''FR'', CStr ''France'', CNum (Fin (183 / 4)), CNum (Fin (97 / 20)),
      CNum NaN, CStr ''Inconnu'', CStr COLOR_UNKNOWN]"
  by (simp add: point_row_def inf_values float_mean_def float_sum_def eaqi_label_def eaqi_color_def
      Let_def)

text \<open>
  C10. The claim is that no point of the aggregated table of a table returned by
  \<^verbatim>\<open>prepare\<close> has an absent mean, the label Inconnu or the neutral colour; the source
  says the same where it draws the markers (\<^verbatim>\<open>bleu/orange/rouge uniquement\<close>). The code
  does not keep it: \<^verbatim>\<open>prepare\<close> keeps the rows whose index reads as plus or minus
  infinity, which are not absent, and the mean of a group that holds both is NaN. The
  theorem evaluates the two functions on such a table.
\<close>

theorem infinite_values_give_unknown_point:
  "prepare pandas_plain inf_raw = Inr inf_clean
   \<and> clean_table inf_clean
   \<and> city_means_for_day inf_clean =
       Inr \<lparr>columns = point_columns,
            rows = [[CStr ''Lyon'', CStr ''FR'', CStr ''France'', CNum (Fin (183 / 4)),
                     CNum (Fin (97 / 20)), CNum NaN, CStr ''Inconnu'', CStr COLOR_UNKNOWN]]\<rparr>"
proof -
  obtain ks where c: "city_means_for_day inf_clean =
        Inr \<lparr>columns = point_columns, rows = map (point_row inf_clean) ks\<rparr>"
    and d: "distinct ks" and s: "set ks = set (map (group_key inf_clean) (rows inf_clean))"
    using city_means_for_day_clean [OF inf_clean_table] by blast
  from s have "set ks =
      {[CStr ''Lyon'', CStr ''FR'', CStr ''France'', CNum (Fin (183 / 4)), CNum (Fin (97 / 20))]}"
    by (simp add: inf_key)
  with d have "ks =
      [[CStr ''Lyon'', CStr ''FR'', CStr ''France'', CNum (Fin (183 / 4)), CNum (Fin (97 / 20))]]"
    by (rule singleton_keys)
  with c show ?thesis by (simp add: inf_point inf_prepare inf_clean_table)
qed

section \<open>Table objects: properties\<close>









end
